theory Spec2Isabelle
  imports Main
begin

section \<open>Values\<close>

text \<open>
  The validator of \<^verbatim>\<open>src/index.ts\<close> takes its schema and its document as
  values of type \<^verbatim>\<open>any\<close>. Both are modelled by one datatype: the primitives,
  ordered sequences without holes, plain objects with their own string-keyed properties
  (each key once, listed in the order of \<^verbatim>\<open>Object.keys\<close>), and what a property
  read on a plain object can yield besides: the functions that \<^verbatim>\<open>Object.prototype\<close>
  holds, and \<^verbatim>\<open>Object.prototype\<close> itself.

  Arrays and objects carry the identity of the reference (a natural number), since
  \<^verbatim>\<open>indexOf\<close> compares them with \<^verbatim>\<open>===\<close>, by reference and not by
  content. A number is given by the text that \<^verbatim>\<open>String\<close> prints for it
  (\<^verbatim>\<open>3.14\<close>, \<^verbatim>\<open>1e+21\<close>, \<^verbatim>\<open>NaN\<close>; \<^verbatim>\<open>0\<close> for both zeros): the
  validator classifies, compares and prints numbers and never computes with them, and
  the text determines all three. A function of \<^verbatim>\<open>Object.prototype\<close> is given by
  the key under which the prototype holds it. Other functions, symbols,
  regular-expression objects and objects with another prototype are outside this model.
\<close>

datatype jsval =
    JUndefined
  | JNull
  | JBool bool
  | JNum string
  | JStr string
  | JArr nat "jsval list"
  | JObj nat "(string \<times> jsval) list"
  | JNative string
  | JObjectPrototype

text \<open>The type \<^verbatim>\<open>Schema_Type\<close>: a union of eight string literals.\<close>

datatype Schema_Type =
    T_undefined
  | T_boolean
  | T_object
  | T_array
  | T_string
  | T_number
  | T_integer
  | T_null

text \<open>The string a type tag is at run time.\<close>

fun tag_text :: "Schema_Type \<Rightarrow> string" where
  "tag_text T_undefined = ''undefined''"
| "tag_text T_boolean = ''boolean''"
| "tag_text T_object = ''object''"
| "tag_text T_array = ''array''"
| "tag_text T_string = ''string''"
| "tag_text T_number = ''number''"
| "tag_text T_integer = ''integer''"
| "tag_text T_null = ''null''"

text \<open>
  \<^verbatim>\<open>getType\<close>, in the order of its tests: undefined, null, array, object, boolean,
  number, and \<^verbatim>\<open>string\<close> for what is left: the strings and the functions.
\<close>

fun getType :: "jsval \<Rightarrow> Schema_Type" where
  "getType JUndefined = T_undefined"
| "getType JNull = T_null"
| "getType (JArr r xs) = T_array"
| "getType (JObj r kvs) = T_object"
| "getType JObjectPrototype = T_object"
| "getType (JBool b) = T_boolean"
| "getType (JNum n) = T_number"
| "getType (JStr s) = T_string"
| "getType (JNative name) = T_string"

text \<open>\<^verbatim>\<open>compareTypes\<close> classifies both of its arguments.\<close>

definition compareTypes :: "jsval \<Rightarrow> jsval \<Rightarrow> Schema_Type \<times> Schema_Type" where
  "compareTypes schema document = (getType schema, getType document)"

subsection \<open>The operations of the language the validator uses\<close>

text \<open>
  The keys under which \<^verbatim>\<open>Object.prototype\<close> holds a function. Its twelfth member,
  \<^verbatim>\<open>__proto__\<close>, is an accessor that yields the prototype of the object it is read on.
\<close>

definition natives :: "string list" where
  "natives = [''constructor'', ''__defineGetter__'', ''__defineSetter__'', ''hasOwnProperty'',
     ''__lookupGetter__'', ''__lookupSetter__'', ''isPrototypeOf'', ''propertyIsEnumerable'',
     ''toString'', ''valueOf'', ''toLocaleString'']"

text \<open>A property read on \<^verbatim>\<open>Object.prototype\<close>, whose own prototype is null.\<close>

definition inherited :: "string \<Rightarrow> jsval" where
  "inherited key =
     (if key \<in> set natives then JNative key
      else if key = ''__proto__'' then JNull
      else JUndefined)"

text \<open>
  A property read on a plain object with the given own properties: the own property,
  or else what the prototype chain gives, which ends at \<^verbatim>\<open>Object.prototype\<close>.
\<close>

definition member :: "(string \<times> jsval) list \<Rightarrow> string \<Rightarrow> jsval" where
  "member kvs key =
     (case map_of kvs key of
        Some x \<Rightarrow> x
      | None \<Rightarrow> if key = ''__proto__'' then JObjectPrototype else inherited key)"

text \<open>
  The property read \<^verbatim>\<open>o[key]\<close>. The validator reads properties of values that
  classify as object only; the last equation is never used.
\<close>

fun get :: "jsval \<Rightarrow> string \<Rightarrow> jsval" where
  "get (JObj r kvs) key = member kvs key"
| "get JObjectPrototype key = inherited key"
| "get other key = JUndefined"

text \<open>\<^verbatim>\<open>Object.keys\<close>: the own enumerable keys; \<^verbatim>\<open>Object.prototype\<close> has none.\<close>

fun keys :: "jsval \<Rightarrow> string list" where
  "keys (JObj r kvs) = map fst kvs"
| "keys other = []"

text \<open>The truth value of a value in a condition (\<^verbatim>\<open>!schema.optional\<close>).\<close>

fun truthy :: "jsval \<Rightarrow> bool" where
  "truthy JUndefined = False"
| "truthy JNull = False"
| "truthy (JBool b) = b"
| "truthy (JNum n) = (n \<noteq> ''0'' \<and> n \<noteq> ''NaN'')"
| "truthy (JStr s) = (s \<noteq> [])"
| "truthy (JArr r xs) = True"
| "truthy (JObj r kvs) = True"
| "truthy (JNative name) = True"
| "truthy JObjectPrototype = True"

text \<open>
  Strict equality \<^verbatim>\<open>===\<close>: primitives by value, \<^verbatim>\<open>NaN\<close> equal to nothing,
  arrays, objects and functions by reference.
\<close>

fun strict_eq :: "jsval \<Rightarrow> jsval \<Rightarrow> bool" where
  "strict_eq JUndefined JUndefined = True"
| "strict_eq JNull JNull = True"
| "strict_eq (JBool a) (JBool b) = (a = b)"
| "strict_eq (JNum a) (JNum b) = (a = b \<and> a \<noteq> ''NaN'')"
| "strict_eq (JStr a) (JStr b) = (a = b)"
| "strict_eq (JArr r xs) (JArr r' ys) = (r = r')"
| "strict_eq (JObj r kvs) (JObj r' kvs') = (r = r')"
| "strict_eq (JNative a) (JNative b) = (a = b)"
| "strict_eq JObjectPrototype JObjectPrototype = True"
| "strict_eq a b = False"

text \<open>\<^verbatim>\<open>Array.prototype.indexOf\<close>: the first index of a strictly equal member, or -1.\<close>

fun indexOf_from :: "int \<Rightarrow> jsval list \<Rightarrow> jsval \<Rightarrow> int" where
  "indexOf_from i [] x = - 1"
| "indexOf_from i (y # ys) x = (if strict_eq y x then i else indexOf_from (i + 1) ys x)"

definition indexOf :: "jsval list \<Rightarrow> jsval \<Rightarrow> int" where
  "indexOf xs x = indexOf_from 0 xs x"

text \<open>The decimal digits of an index.\<close>

fun digit :: "nat \<Rightarrow> char" where
  "digit n = (''0123456789'' ! n)"

function decimal :: "nat \<Rightarrow> string" where
  "decimal n = (if 10 \<le> n then decimal (n div 10) else []) @ [digit (n mod 10)]"
  by pat_completeness auto
termination
  by (relation "measure id") auto

declare decimal.simps [simp del]

text \<open>The members of a sequence of strings with a separator between them.\<close>

fun intercalate :: "string \<Rightarrow> string list \<Rightarrow> string" where
  "intercalate sep [] = []"
| "intercalate sep [s] = s"
| "intercalate sep (s # t # ss) = s @ sep @ intercalate sep (t # ss)"

text \<open>
  The conversion of an object to a string calls the object's method \<^verbatim>\<open>toString\<close>
  and, when that is no function or gives no primitive, its method \<^verbatim>\<open>valueOf\<close>;
  when neither gives a primitive it throws a \<^verbatim>\<open>TypeError\<close>. In this model a
  method is a function of \<^verbatim>\<open>Object.prototype\<close>, inherited or stored under another
  key. What such a function gives when it is called on a plain object without
  arguments: the text of a primitive, no primitive, or an exception.
\<close>

datatype reply = Text string | NoPrimitive | Raised

definition call_plain :: "string \<Rightarrow> (string \<times> jsval) list \<Rightarrow> reply" where
  "call_plain name kvs =
     (if name = ''toString'' then Text ''[object Object]''
      else if name = ''valueOf'' \<or> name = ''constructor'' then NoPrimitive
      else if name = ''hasOwnProperty'' \<or> name = ''propertyIsEnumerable'' then
        Text (if ''undefined'' \<in> set (map fst kvs) then ''true'' else ''false'')
      else if name = ''isPrototypeOf'' then Text ''false''
      else if name = ''__lookupGetter__'' \<or> name = ''__lookupSetter__'' then Text ''undefined''
      else Raised)"

text \<open>
  \<^verbatim>\<open>toLocaleString\<close> calls the method \<^verbatim>\<open>toString\<close> of the object: an exception
  when that is no function, and when it is \<^verbatim>\<open>toLocaleString\<close> again, which never
  returns.
\<close>

definition call_native :: "string \<Rightarrow> (string \<times> jsval) list \<Rightarrow> reply" where
  "call_native name kvs =
     (if name = ''toLocaleString'' then
        (case member kvs ''toString'' of
           JNative m \<Rightarrow> if m = ''toLocaleString'' then Raised else call_plain m kvs
         | other \<Rightarrow> Raised)
      else call_plain name kvs)"

definition method_reply :: "(string \<times> jsval) list \<Rightarrow> string \<Rightarrow> reply" where
  "method_reply kvs name =
     (case member kvs name of
        JNative m \<Rightarrow> call_native m kvs
      | other \<Rightarrow> NoPrimitive)"

text \<open>The text of a plain object, or \<open>None\<close> when the conversion throws.\<close>

definition object_text :: "(string \<times> jsval) list \<Rightarrow> string option" where
  "object_text kvs =
     (case method_reply kvs ''toString'' of
        Text s \<Rightarrow> Some s
      | Raised \<Rightarrow> None
      | NoPrimitive \<Rightarrow>
          (case method_reply kvs ''valueOf'' of
             Text s \<Rightarrow> Some s
           | Raised \<Rightarrow> None
           | NoPrimitive \<Rightarrow> None))"

text \<open>The text of a function of \<^verbatim>\<open>Object.prototype\<close>, as Node prints it.\<close>

definition native_text :: "string \<Rightarrow> string" where
  "native_text name =
     ''function '' @ (if name = ''constructor'' then ''Object'' else name)
       @ ''() { [native code] }''"

text \<open>All the texts, or \<open>None\<close> when one of the conversions throws.\<close>

fun texts :: "string option list \<Rightarrow> string list option" where
  "texts [] = Some []"
| "texts (None # ts) = None"
| "texts (Some s # ts) = (case texts ts of None \<Rightarrow> None | Some ss \<Rightarrow> Some (s # ss))"

text \<open>
  \<^verbatim>\<open>String(value)\<close>, which is also what a template literal inserts; \<open>None\<close> when
  the conversion throws. An array prints its members joined by commas, a null or
  undefined member as the empty string.
\<close>

fun toString :: "jsval \<Rightarrow> string option" where
  "toString JUndefined = Some ''undefined''"
| "toString JNull = Some ''null''"
| "toString (JBool b) = Some (if b then ''true'' else ''false'')"
| "toString (JNum n) = Some n"
| "toString (JStr s) = Some s"
| "toString (JArr r xs) =
     map_option (intercalate '','')
       (texts (map (\<lambda>x. if x = JUndefined \<or> x = JNull then Some [] else toString x) xs))"
| "toString (JObj r kvs) = object_text kvs"
| "toString (JNative name) = Some (native_text name)"
| "toString JObjectPrototype = Some ''[object Object]''"

text \<open>\<^verbatim>\<open>Array.prototype.join\<close>.\<close>

definition join :: "jsval list \<Rightarrow> string \<Rightarrow> string option" where
  "join xs sep =
     map_option (intercalate sep)
       (texts (map (\<lambda>x. if x = JUndefined \<or> x = JNull then Some [] else toString x) xs))"

text \<open>The members of an array value.\<close>

fun elements :: "jsval \<Rightarrow> jsval list" where
  "elements (JArr r xs) = xs"
| "elements other = []"

section \<open>The validator\<close>

text \<open>
  \<^verbatim>\<open>ValidationError\<close>. The validator assigns the fields \<^verbatim>\<open>keyword\<close>,
  \<^verbatim>\<open>instancePath\<close> and \<^verbatim>\<open>message\<close>; the other fields of the class are optional
  and are never assigned.
\<close>

record ValidationError =
  keyword :: "string option"
  instancePath :: string
  message :: "string option"

text \<open>
  The instance of \<^verbatim>\<open>JsonValidator\<close>: the fields \<^verbatim>\<open>_schema\<close> and \<^verbatim>\<open>_errors\<close>.
  An identifier cannot start with an underscore, so the leading underscore of a name
  of the source is written \<open>u_\<close>.
\<close>

record JsonValidator =
  u_schema :: jsval
  u_errors :: "ValidationError list"

text \<open>
  A method of the class either returns a boolean or leaves by an exception: the one
  that \<^verbatim>\<open>new RegExp\<close> throws on a source that is no regular expression, or the
  one of a conversion to a string. In both cases the instance is left as the method
  changed it.
\<close>

datatype outcome = Returned bool | Thrown

type_synonym action = "JsonValidator \<Rightarrow> outcome \<times> JsonValidator"

text \<open>
  The regular-expression engine of the run time is a parameter of the model:
  \<open>re source subject\<close> is \<^verbatim>\<open>new RegExp(source).test(subject)\<close>, and \<open>None\<close> when the
  constructor throws.
\<close>

type_synonym regexp = "string \<Rightarrow> string \<Rightarrow> bool option"

text \<open>The getters \<^verbatim>\<open>isValid\<close> and \<^verbatim>\<open>errors\<close>.\<close>

definition isValid :: "JsonValidator \<Rightarrow> bool" where
  "isValid this = (length (u_errors this) = 0)"

definition errors :: "JsonValidator \<Rightarrow> ValidationError list" where
  "errors this = u_errors this"

text \<open>\<^verbatim>\<open>_logError\<close> pushes a record onto \<^verbatim>\<open>_errors\<close>.\<close>

definition u_logError :: "ValidationError \<Rightarrow> JsonValidator \<Rightarrow> JsonValidator" where
  "u_logError error this = this\<lparr>u_errors := u_errors this @ [error]\<rparr>"

text \<open>
  \<^verbatim>\<open>Array.prototype.every\<close> with a callback that acts on the instance: the members
  are visited from the first on, the visit ends at the first member whose callback does
  not return true, and an exception of the callback leaves the loop.
\<close>

fun every :: "('a \<Rightarrow> action) \<Rightarrow> 'a list \<Rightarrow> action" where
  "every f [] this = (Returned True, this)"
| "every f (x # xs) this =
     (case f x this of
        (Returned True, this') \<Rightarrow> every f xs this'
      | (Returned False, this') \<Rightarrow> (Returned False, this')
      | (Thrown, this') \<Rightarrow> (Thrown, this'))"

lemma every_cong [fundef_cong]:
  assumes "xs = ys" and "this = this'"
    and "\<And>x s. x \<in> set ys \<Longrightarrow> f x s = g x s"
  shows "every f xs this = every g ys this'"
  using assms
proof (induction ys arbitrary: xs this this')
  case Nil
  then show ?case by simp
next
  case (Cons y ys)
  then show ?case
    by (auto split: prod.splits outcome.splits bool.splits)
qed

text \<open>The members of an array with their indices, as \<^verbatim>\<open>every\<close> hands them to its callback.\<close>

definition indexed :: "'a list \<Rightarrow> ('a \<times> nat) list" where
  "indexed xs = zip xs [0..<length xs]"

subsection \<open>The checks\<close>

text \<open>
  A conversion to a string that throws leaves the method before a record is pushed.
\<close>

definition u_matchesType :: "jsval \<Rightarrow> jsval \<Rightarrow> string \<Rightarrow> action" where
  "u_matchesType schema document path this =
     (let (schemaType, docType) = compareTypes schema document in
      if schemaType \<noteq> T_undefined then
        if schemaType = T_string then
          if JStr (tag_text docType) \<noteq> schema then
            (Returned False,
             u_logError \<lparr>keyword = Some ''type'', instancePath = path,
               message = Some (''must be '' @ tag_text schemaType @ '', but it was ''
                 @ tag_text docType)\<rparr> this)
          else (Returned True, this)
        else if schemaType = T_array then
          let allowedTypes = elements schema in
          if indexOf allowedTypes (JStr (tag_text docType)) < 0 then
            (case join allowedTypes '' | '' of
               None \<Rightarrow> (Thrown, this)
             | Some oneOfType \<Rightarrow>
                 (Returned False,
                  u_logError \<lparr>keyword = Some ''type'', instancePath = path,
                    message = Some (''must be '' @ oneOfType @ '', but it was ''
                      @ tag_text docType)\<rparr> this))
          else (Returned True, this)
        else (Returned True, this)
      else (Returned True, this))"

definition u_matchesEnum :: "jsval \<Rightarrow> jsval \<Rightarrow> string \<Rightarrow> action" where
  "u_matchesEnum schema document path this =
     (if getType schema = T_array then
        if indexOf (elements schema) document < 0 then
          (case join (elements schema) '', '' of
             None \<Rightarrow> (Thrown, this)
           | Some enumVals \<Rightarrow>
               (case toString document of
                  None \<Rightarrow> (Thrown, this)
                | Some text \<Rightarrow>
                    (Returned False,
                     u_logError \<lparr>keyword = Some ''value'', instancePath = path,
                       message = Some (''value must be in enum '' @ enumVals
                         @ '', but it was '' @ text)\<rparr> this)))
        else (Returned True, this)
      else (Returned True, this))"

text \<open>
  \<^verbatim>\<open>new RegExp(schema)\<close> converts a schema that is no string to a string, then
  \<^verbatim>\<open>String(document)\<close> converts the document, then the test runs.
\<close>

definition u_matchesPattern :: "regexp \<Rightarrow> jsval \<Rightarrow> jsval \<Rightarrow> string \<Rightarrow> action" where
  "u_matchesPattern re schema document path this =
     (let (schemaType, docType) = compareTypes schema document in
      if schemaType \<noteq> T_undefined then
        (case toString schema of
           None \<Rightarrow> (Thrown, this)
         | Some source \<Rightarrow>
             (case toString document of
                None \<Rightarrow> (Thrown, this)
              | Some subject \<Rightarrow>
                  (case re source subject of
                     None \<Rightarrow> (Thrown, this)
                   | Some True \<Rightarrow> (Returned True, this)
                   | Some False \<Rightarrow>
                       (Returned False,
                        u_logError \<lparr>keyword = Some ''value'', instancePath = path,
                          message = Some (''value '' @ subject @ '' did not match  ''
                            @ source)\<rparr> this))))
      else (Returned True, this))"

text \<open>
  The idiom \<^verbatim>\<open>if (!check) { return false; }\<close> followed by the rest of the method.
\<close>

definition check_then :: "action \<Rightarrow> action \<Rightarrow> action" where
  "check_then check rest this =
     (case check this of
        (Returned True, this') \<Rightarrow> rest this'
      | (Returned False, this') \<Rightarrow> (Returned False, this')
      | (Thrown, this') \<Rightarrow> (Thrown, this'))"

lemma check_then_cong [fundef_cong]:
  assumes "\<And>s. check s = check' s" and "\<And>s. rest s = rest' s" and "this = this'"
  shows "check_then check rest this = check_then check' rest' this'"
  using assms by (simp add: check_then_def split: prod.splits outcome.splits bool.splits)

text \<open>
  Every call of the engine from within itself is on a part of the schema: the field
  \<^verbatim>\<open>items\<close> or \<^verbatim>\<open>properties\<close> of a descriptor, or a member of the
  properties map. The measure is the size of the schema, with \<^verbatim>\<open>Object.prototype\<close>
  above what a read on it yields.
\<close>

definition rank :: "jsval \<Rightarrow> nat" where
  "rank s = (case s of JObj r kvs \<Rightarrow> Suc (size s) | JObjectPrototype \<Rightarrow> 1 | other \<Rightarrow> 0)"

lemma rank_le: "rank v \<le> Suc (size v)"
  by (cases v) (simp_all add: rank_def)

lemma rank_inherited: "rank (inherited k) = 0"
  by (simp add: inherited_def rank_def)

lemma rank_get:
  assumes "getType s = T_object"
  shows "rank (get s k) < rank s"
proof (cases s)
  case (JObj r kvs)
  have own: "map_of kvs k = Some v \<Longrightarrow> size v < size_list (size_prod (\<lambda>_. 0) size) kvs" for v
    by (induction kvs) (auto split: if_splits)
  show ?thesis
  proof (cases "map_of kvs k")
    case None
    then show ?thesis
      using JObj by (simp add: member_def rank_inherited) (simp add: rank_def)
  next
    case (Some v)
    then show ?thesis
      using JObj own [OF Some] rank_le [of v] by (simp add: member_def rank_def)
  qed
next
  case JObjectPrototype
  then show ?thesis
    by (simp add: rank_inherited) (simp add: rank_def)
qed (use assms in auto)

lemma rank_get_object:
  assumes "T_object = getType s"
  shows "Suc (2 * rank (get s k)) < 2 * rank s" and "2 * rank (get s k) < Suc (2 * rank s)"
  using rank_get [of s k] assms by auto

function u_isValid :: "regexp \<Rightarrow> jsval \<Rightarrow> jsval \<Rightarrow> string \<Rightarrow> action"
  and u_matchesItems :: "regexp \<Rightarrow> jsval \<Rightarrow> jsval \<Rightarrow> string \<Rightarrow> action"
  and u_matchesProperties :: "regexp \<Rightarrow> jsval \<Rightarrow> jsval \<Rightarrow> string \<Rightarrow> action"
where
  "u_isValid re schema document path this =
     (let schemaType = fst (compareTypes schema document) in
      if schemaType = T_string \<or> schemaType = T_array then
        check_then (u_matchesType schema document path) (\<lambda>t. (Returned True, t)) this
      else if schemaType = T_object then
        (case u_matchesType (get schema ''type'') document path this of
           (Thrown, this1) \<Rightarrow> (Thrown, this1)
         | (Returned matched, this1) \<Rightarrow>
             if \<not> matched \<and> (\<not> truthy (get schema ''optional'') \<or> document \<noteq> JUndefined)
             then (Returned False, this1)
             else
               check_then (u_matchesEnum (get schema ''enum'') document path)
              (check_then (u_matchesPattern re (get schema ''matches'') document path)
              (check_then (\<lambda>t. u_matchesItems re (get schema ''items'') document path t)
              (check_then (\<lambda>t. u_matchesProperties re (get schema ''properties'') document path t)
                 (\<lambda>t. (Returned True, t))))) this1)
      else (Returned True, this))"
| "u_matchesItems re schema document path this =
     (let schemaType = fst (compareTypes schema document);
          docType = snd (compareTypes schema document) in
      if schemaType \<noteq> T_undefined then
        if docType \<noteq> T_array then
          (Returned False,
           u_logError \<lparr>keyword = Some ''schema'', instancePath = path,
             message = Some ''must be an array, but schema defines items.''\<rparr> this)
        else
          every (\<lambda>(subItem, index) t.
                   if schemaType = T_string \<or> schemaType = T_array then
                     u_matchesType schema subItem (path @ ''['' @ decimal index @ '']'') t
                   else if schemaType = T_object then
                     u_isValid re schema subItem (path @ ''['' @ decimal index @ '']'') t
                   else (Returned True, t))
                (indexed (elements document)) this
      else (Returned True, this))"
| "u_matchesProperties re schema document path this =
     (let schemaType = fst (compareTypes schema document);
          docType = snd (compareTypes schema document) in
      if schemaType \<noteq> T_undefined then
        if docType \<noteq> T_object then
          (Returned False,
           u_logError \<lparr>keyword = Some ''schema'', instancePath = ''path'',
             message = Some ''must be an object, but schema defines properties.''\<rparr> this)
        else if schemaType = T_string \<or> schemaType = T_array then
          every (\<lambda>key t. u_matchesType schema (get document key) (path @ ''.'' @ key) t)
            (keys document) this
        else if schemaType = T_object then
          every (\<lambda>key t. u_isValid re (get schema key) (get document key) (path @ ''.'' @ key) t)
            (keys schema) this
        else (Returned True, this)
      else (Returned True, this))"
  by pat_completeness auto
termination
  by (relation "measure (\<lambda>x. case x of
      Inl (re, s, d, p, t) \<Rightarrow> 2 * rank s
    | Inr (Inl (re, s, d, p, t)) \<Rightarrow> 2 * rank s + 1
    | Inr (Inr (re, s, d, p, t)) \<Rightarrow> 2 * rank s + 1)")
    (auto simp: compareTypes_def rank_get_object)

declare u_isValid.simps [simp del]
declare u_matchesItems.simps [simp del]
declare u_matchesProperties.simps [simp del]

text \<open>
  \<^verbatim>\<open>validate\<close> empties the error collection, runs the engine on the compiled schema
  from the path \<^verbatim>\<open>$\<close>, drops the boolean of the engine and returns the instance. The
  first component tells whether the call returned; the second is the instance after the
  call, which is also the value returned. The field \<^verbatim>\<open>_schema\<close> holds the schema
  as \<^verbatim>\<open>compile\<close> left it: the schema node itself, or the value of the JSON text.
\<close>

definition validate :: "regexp \<Rightarrow> jsval \<Rightarrow> JsonValidator \<Rightarrow> bool \<times> JsonValidator" where
  "validate re root this =
     (case u_isValid re (u_schema this) root ''$'' (this\<lparr>u_errors := []\<rparr>) of
        (Returned b, this') \<Rightarrow> (True, this')
      | (Thrown, this') \<Rightarrow> (False, this'))"

text \<open>
  An engine for the concrete runs below. A source of letters and digits only is
  matched by the subjects that contain it; this engine takes no other source.
\<close>

fun alnum :: "char \<Rightarrow> bool" where
  "alnum c = (c \<in> set ''abcdefghijklmnopqrstuvwxyzABCDEFGHIJKLMNOPQRSTUVWXYZ0123456789'')"

fun starts_with :: "string \<Rightarrow> string \<Rightarrow> bool" where
  "starts_with [] subject = True"
| "starts_with (c # cs) [] = False"
| "starts_with (c # cs) (d # ds) = (c = d \<and> starts_with cs ds)"

fun contains :: "string \<Rightarrow> string \<Rightarrow> bool" where
  "contains source [] = (source = [])"
| "contains source (d # ds) = (starts_with source (d # ds) \<or> contains source ds)"

definition literal_regexp :: regexp where
  "literal_regexp source subject =
     (if list_all alnum source then Some (contains source subject) else None)"

text \<open>
  A method appends to the error collection and changes nothing else of the instance.
\<close>

definition appends :: "action \<Rightarrow> bool" where
  "appends m = (\<forall>t. \<exists>es. snd (m t) = t\<lparr>u_errors := u_errors t @ es\<rparr>)"

section \<open>Properties\<close>

subsection \<open>Facts about the combinators\<close>

lemma check_then_return [simp]: "check_then m (\<lambda>t. (Returned True, t)) t = m t"
  by (simp add: check_then_def split: prod.splits outcome.splits bool.splits)

lemma check_then_not_true:
  "fst (m t) \<noteq> Returned True \<Longrightarrow> check_then m rest t = m t"
  by (cases "m t") (auto simp: check_then_def split: outcome.splits bool.splits)

lemma check_then_case:
  "check_then m rest t = (case m t of (Returned True, t') \<Rightarrow> rest t' | other \<Rightarrow> other)"
  by (simp add: check_then_def split: prod.splits outcome.splits bool.splits)

lemma every_append: "every f (xs @ ys) t = check_then (every f xs) (every f ys) t"
proof (induction xs arbitrary: t)
  case Nil
  then show ?case by (simp add: check_then_def)
next
  case (Cons x xs)
  show ?case
    by (cases "f x t") (auto simp: Cons.IH check_then_def split: outcome.splits bool.splits)
qed

lemma every_single: "every f [x] t = f x t"
  by (cases "f x t") (auto split: outcome.splits bool.splits)

lemma indexed_append:
  "indexed (xs @ ys) = indexed xs @ zip ys [length xs..<length xs + length ys]"
proof -
  have "[0..<length xs + length ys] = [0..<length xs] @ [length xs..<length xs + length ys]"
    by (rule upt_add_eq_append) simp
  then show ?thesis
    by (simp add: indexed_def)
qed

lemma indexed_snoc: "indexed (xs @ [y]) = indexed xs @ [(y, length xs)]"
  by (simp add: indexed_def)

lemma decimal_digit: "n < 10 \<Longrightarrow> decimal n = [digit n]"
  by (subst decimal.simps) simp

lemma member_Nil:
  "member [] key = (if key = ''__proto__'' then JObjectPrototype else inherited key)"
  by (simp add: member_def)

lemma member_Cons: "member ((k, v) # kvs) key = (if key = k then v else member kvs key)"
  by (simp add: member_def)

lemma inherited_fields:
  "inherited ''type'' = JUndefined" "inherited ''optional'' = JUndefined"
  "inherited ''enum'' = JUndefined" "inherited ''matches'' = JUndefined"
  "inherited ''items'' = JUndefined" "inherited ''properties'' = JUndefined"
  "inherited ''pattern'' = JUndefined" "inherited ''a'' = JUndefined"
  "inherited ''b'' = JUndefined"
  by (simp_all add: inherited_def natives_def)

lemmas read_simps = member_Nil member_Cons inherited_fields

lemmas engine_simps = u_isValid.simps u_matchesItems.simps u_matchesProperties.simps
  u_matchesType_def u_matchesEnum_def u_matchesPattern_def compareTypes_def check_then_def
  u_logError_def indexOf_def join_def read_simps

subsection \<open>The engine only appends to the error collection\<close>

lemma appendsI: "(\<And>t. \<exists>es. snd (m t) = t\<lparr>u_errors := u_errors t @ es\<rparr>) \<Longrightarrow> appends m"
  by (simp add: appends_def)

lemma appendsD: "appends m \<Longrightarrow> \<exists>es. snd (m t) = t\<lparr>u_errors := u_errors t @ es\<rparr>"
  by (simp add: appends_def)

lemma appends_return: "appends (\<lambda>t. (r, t))"
  by (rule appendsI) (rule exI [of _ "[]"], simp)

lemma appends_log: "appends (\<lambda>t. (r, u_logError e t))"
  by (rule appendsI) (rule exI [of _ "[e]"], simp add: u_logError_def)

lemma frame_same: "\<exists>es. t = t\<lparr>u_errors := u_errors t @ es\<rparr>"
  by (rule exI [of _ "[]"]) simp

lemma frame_log: "\<exists>es. u_logError e t = t\<lparr>u_errors := u_errors t @ es\<rparr>"
  by (rule exI [of _ "[e]"]) (simp add: u_logError_def)

lemma appends_matchesType: "appends (u_matchesType schema document path)"
  by (rule appendsI)
    (simp add: u_matchesType_def Let_def frame_same frame_log
      split: prod.splits option.splits)

lemma appends_matchesEnum: "appends (u_matchesEnum schema document path)"
  by (rule appendsI)
    (simp add: u_matchesEnum_def Let_def frame_same frame_log split: option.splits)

lemma appends_matchesPattern: "appends (u_matchesPattern re schema document path)"
  by (rule appendsI)
    (simp add: u_matchesPattern_def Let_def frame_same frame_log
      split: prod.splits option.splits bool.splits)

lemma appends_check_then:
  assumes "appends m" and "appends rest"
  shows "appends (check_then m rest)"
proof (rule appendsI)
  fix t
  obtain es where m: "snd (m t) = t\<lparr>u_errors := u_errors t @ es\<rparr>"
    using appendsD [OF assms(1)] by blast
  obtain es' where r: "snd (rest (snd (m t))) = (snd (m t))\<lparr>u_errors := u_errors (snd (m t)) @ es'\<rparr>"
    using appendsD [OF assms(2)] by blast
  show "\<exists>es. snd (check_then m rest t) = t\<lparr>u_errors := u_errors t @ es\<rparr>"
  proof (cases "fst (m t) = Returned True")
    case True
    then have "check_then m rest t = rest (snd (m t))"
      by (cases "m t") (simp add: check_then_def)
    then show ?thesis using m r by (intro exI [of _ "es @ es'"]) simp
  next
    case False
    then have "snd (check_then m rest t) = snd (m t)"
      by (cases "m t") (auto simp: check_then_def split: outcome.splits bool.splits)
    then show ?thesis using m by (intro exI [of _ es]) simp
  qed
qed

lemma every_Cons_check_then: "every f (x # xs) = check_then (f x) (every f xs)"
  by (rule ext) (simp add: check_then_def split: prod.splits outcome.splits bool.splits)

lemma appends_every:
  assumes "\<And>x. x \<in> set xs \<Longrightarrow> appends (f x)"
  shows "appends (every f xs)"
  using assms
proof (induction xs)
  case Nil
  have "every f [] = (\<lambda>t. (Returned True, t))" by (rule ext) simp
  then show ?case by (simp add: appends_return)
next
  case (Cons x xs)
  then show ?case
    by (simp add: every_Cons_check_then appends_check_then)
qed


lemma appends_engine:
  "\<exists>es. snd (u_isValid re schema document path this) = this\<lparr>u_errors := u_errors this @ es\<rparr>"
  "\<exists>es. snd (u_matchesItems re schema document path this) = this\<lparr>u_errors := u_errors this @ es\<rparr>"
  "\<exists>es. snd (u_matchesProperties re schema document path this) = this\<lparr>u_errors := u_errors this @ es\<rparr>"
proof (induction re schema document path this and re schema document path this
    and re schema document path this rule: u_isValid_u_matchesItems_u_matchesProperties.induct)
  case (1 re schema document path this)
  show ?case
  proof (cases "getType schema = T_string \<or> getType schema = T_array")
    case True
    then show ?thesis
      using appendsD [OF appends_matchesType]
      by (simp add: u_isValid.simps compareTypes_def)
  next
    case nt: False
    show ?thesis
    proof (cases "getType schema = T_object")
      case False
      then show ?thesis using nt by (simp add: u_isValid.simps compareTypes_def frame_same)
    next
      case obj: True
      obtain r y where ty: "u_matchesType (get schema ''type'') document path this = (r, y)"
        by (cases "u_matchesType (get schema ''type'') document path this")
      obtain es0 where y: "y = this\<lparr>u_errors := u_errors this @ es0\<rparr>"
        using appendsD [OF appends_matchesType, of "get schema ''type''" document path this] ty
        by auto
      show ?thesis
      proof (cases "\<exists>x1. r = Returned x1 \<and> \<not> (\<not> x1 \<and>
              (\<not> truthy (get schema ''optional'') \<or> document \<noteq> JUndefined))")
        case False
        then have "snd (u_isValid re schema document path this) = y"
          using nt obj ty by (cases r) (auto simp: u_isValid.simps compareTypes_def)
        then show ?thesis using y by blast
      next
        case True
        then obtain x1 where x1: "r = Returned x1" "\<not> (\<not> x1 \<and>
              (\<not> truthy (get schema ''optional'') \<or> document \<noteq> JUndefined))" by blast
        have I: "appends (\<lambda>t. u_matchesItems re (get schema ''items'') document path t)"
          by (rule appendsI) (rule "1.IH"(1) [OF refl _ _ ty [symmetric] x1], use nt obj in \<open>simp_all add: compareTypes_def\<close>)
        have P: "appends (\<lambda>t. u_matchesProperties re (get schema ''properties'') document path t)"
          by (rule appendsI) (rule "1.IH"(2) [OF refl _ _ ty [symmetric] x1], use nt obj in \<open>simp_all add: compareTypes_def\<close>)
        let ?chain = "check_then (u_matchesEnum (get schema ''enum'') document path)
              (check_then (u_matchesPattern re (get schema ''matches'') document path)
              (check_then (\<lambda>t. u_matchesItems re (get schema ''items'') document path t)
              (check_then (\<lambda>t. u_matchesProperties re (get schema ''properties'') document path t)
                 (\<lambda>t. (Returned True, t)))))"
        have "appends ?chain"
          by (intro appends_check_then appends_matchesEnum appends_matchesPattern I P appends_return)
        then obtain es1 where "snd (?chain y) = y\<lparr>u_errors := u_errors y @ es1\<rparr>"
          using appendsD by blast
        moreover have "u_isValid re schema document path this = ?chain y"
          using nt obj ty x1 by (auto simp: u_isValid.simps compareTypes_def)
        ultimately show ?thesis using y by (intro exI [of _ "es0 @ es1"]) simp
      qed
    qed
  qed
next
  case (2 re schema document path this)
  show ?case
  proof (cases "getType schema \<noteq> T_undefined \<and> getType document = T_array")
    case False
    then show ?thesis
      by (auto simp: u_matchesItems.simps compareTypes_def Let_def frame_same frame_log)
  next
    case True
    let ?f = "\<lambda>(subItem, index) t.
                   if getType schema = T_string \<or> getType schema = T_array then
                     u_matchesType schema subItem (path @ ''['' @ decimal index @ '']'') t
                   else if getType schema = T_object then
                     u_isValid re schema subItem (path @ ''['' @ decimal index @ '']'') t
                   else (Returned True, t)"
    have "appends (?f x)" if "x \<in> set (indexed (elements document))" for x
    proof (cases x)
      case (Pair subItem index)
      show ?thesis
      proof (cases "getType schema = T_string \<or> getType schema = T_array")
        case True
        then show ?thesis using Pair appends_matchesType by auto
      next
        case nt: False
        show ?thesis
        proof (cases "getType schema = T_object")
          case False
          then show ?thesis using nt Pair by (simp add: appends_return)
        next
          case obj: True
          have "appends (\<lambda>t. u_isValid re schema subItem (path @ ''['' @ decimal index @ '']'') t)"
            by (rule appendsI) (rule "2.IH" [OF refl refl _ _ that Pair [symmetric]],
              use True nt obj in \<open>simp_all add: compareTypes_def\<close>)
          then show ?thesis using nt obj Pair by simp
        qed
      qed
    qed
    then have "appends (every ?f (indexed (elements document)))"
      by (rule appends_every)
    from appendsD [OF this, of this]
    obtain es where "snd (every ?f (indexed (elements document)) this)
        = this\<lparr>u_errors := u_errors this @ es\<rparr>" by blast
    moreover have "u_matchesItems re schema document path this
        = every ?f (indexed (elements document)) this"
      using True by (simp add: u_matchesItems.simps compareTypes_def Let_def)
    ultimately show ?thesis by (intro exI [of _ es]) simp
  qed
next
  case (3 re schema document path this)
  show ?case
  proof (cases "getType schema \<noteq> T_undefined \<and> getType document = T_object")
    case False
    then show ?thesis
      by (auto simp: u_matchesProperties.simps compareTypes_def Let_def frame_same frame_log)
  next
    case True
    show ?thesis
    proof (cases "getType schema = T_string \<or> getType schema = T_array")
      case ta: True
      have "appends (every (\<lambda>key t. u_matchesType schema (get document key) (path @ ''.'' @ key) t)
            (keys document))"
        by (rule appends_every) (rule appends_matchesType)
      moreover have "u_matchesProperties re schema document path this
        = every (\<lambda>key t. u_matchesType schema (get document key) (path @ ''.'' @ key) t)
            (keys document) this"
        using True ta by (auto simp: u_matchesProperties.simps compareTypes_def Let_def)
      ultimately show ?thesis using appendsD [of _ this] by fastforce
    next
      case nt: False
      show ?thesis
      proof (cases "getType schema = T_object")
        case False
        then show ?thesis using nt True
          by (simp add: u_matchesProperties.simps compareTypes_def Let_def frame_same)
      next
        case obj: True
        have "appends (\<lambda>t. u_isValid re (get schema key) (get document key) (path @ ''.'' @ key) t)"
          if "key \<in> set (keys schema)" for key
          by (rule appendsI) (rule "3.IH" [OF refl refl _ _ _ _ that],
              use True nt obj in \<open>simp_all add: compareTypes_def\<close>)
        then have "appends (every (\<lambda>key t. u_isValid re (get schema key) (get document key)
              (path @ ''.'' @ key) t) (keys schema))"
          by (rule appends_every)
        moreover have "u_matchesProperties re schema document path this
          = every (\<lambda>key t. u_isValid re (get schema key) (get document key) (path @ ''.'' @ key) t)
              (keys schema) this"
          using True nt obj by (simp add: u_matchesProperties.simps compareTypes_def Let_def)
        ultimately show ?thesis using appendsD [of _ this] by fastforce
      qed
    qed
  qed
qed

subsection \<open>Schema nodes that are no schema\<close>

text \<open>
  Claim C9. A schema node that classifies neither as string, nor as array, nor as
  object (a number, a boolean, null, undefined) accepts every document: the engine
  returns true and leaves the error collection as it found it.
\<close>

theorem fail_open:
  assumes "getType schema \<noteq> T_string" and "getType schema \<noteq> T_array"
    and "getType schema \<noteq> T_object"
  shows "u_isValid re schema document path this = (Returned True, this)"
  using assms by (simp add: u_isValid.simps compareTypes_def)

theorem fail_open_witness:
  "getType (JNum ''5'') \<noteq> T_string \<and> getType (JNum ''5'') \<noteq> T_array
   \<and> getType (JNum ''5'') \<noteq> T_object
   \<and> u_isValid literal_regexp (JNum ''5'') (JStr ''x'') ''$'' \<lparr>u_schema = JNum ''5'', u_errors = []\<rparr>
       = (Returned True, \<lparr>u_schema = JNum ''5'', u_errors = []\<rparr>)"
  using fail_open [of "JNum ''5''" literal_regexp "JStr ''x''" "''$''"
      "\<lparr>u_schema = JNum ''5'', u_errors = []\<rparr>"]
  by simp

subsection \<open>The optional flag\<close>

text \<open>
  Claim C1, at its own input. For the schema \<^verbatim>\<open>{type:"string", optional:true}\<close>
  and the document \<^verbatim>\<open>undefined\<close> the engine returns true, but the record that
  the type check pushed before the optional flag was looked at stays in the
  collection: after \<^verbatim>\<open>validate\<close> the collection holds one record of keyword
  \<^verbatim>\<open>type\<close> and \<^verbatim>\<open>isValid\<close> is false.
\<close>

theorem optional_undefined_is_logged:
  "u_isValid re (JObj r [(''type'', JStr ''string''), (''optional'', JBool True)]) JUndefined ''$''
      \<lparr>u_schema = JObj r [(''type'', JStr ''string''), (''optional'', JBool True)], u_errors = []\<rparr>
    = (Returned True,
       \<lparr>u_schema = JObj r [(''type'', JStr ''string''), (''optional'', JBool True)],
        u_errors = [\<lparr>keyword = Some ''type'', instancePath = ''$'',
          message = Some ''must be string, but it was undefined''\<rparr>]\<rparr>)
   \<and> validate re JUndefined
      \<lparr>u_schema = JObj r [(''type'', JStr ''string''), (''optional'', JBool True)], u_errors = es\<rparr>
    = (True,
       \<lparr>u_schema = JObj r [(''type'', JStr ''string''), (''optional'', JBool True)],
        u_errors = [\<lparr>keyword = Some ''type'', instancePath = ''$'',
          message = Some ''must be string, but it was undefined''\<rparr>]\<rparr>)
   \<and> isValid (snd (validate re JUndefined
      \<lparr>u_schema = JObj r [(''type'', JStr ''string''), (''optional'', JBool True)],
       u_errors = es\<rparr>)) = False"
  by (simp add: validate_def isValid_def engine_simps)

subsection \<open>The records one invocation logs\<close>

text \<open>
  A descriptor without \<^verbatim>\<open>items\<close> and \<^verbatim>\<open>properties\<close> pushes at most one
  record, unless the optional flag is set and the document is undefined.
\<close>

lemma matchesType_logs:
  "(fst (u_matchesType schema document path t) = Returned False
      \<and> length (u_errors (snd (u_matchesType schema document path t))) = Suc (length (u_errors t)))
   \<or> (fst (u_matchesType schema document path t) \<noteq> Returned False
      \<and> snd (u_matchesType schema document path t) = t)"
  by (simp add: u_matchesType_def compareTypes_def Let_def u_logError_def split: option.splits)

lemma matchesEnum_logs:
  "(fst (u_matchesEnum schema document path t) = Returned False
      \<and> length (u_errors (snd (u_matchesEnum schema document path t))) = Suc (length (u_errors t)))
   \<or> (fst (u_matchesEnum schema document path t) \<noteq> Returned False
      \<and> snd (u_matchesEnum schema document path t) = t)"
  by (simp add: u_matchesEnum_def Let_def u_logError_def split: option.splits)

lemma matchesPattern_logs:
  "(fst (u_matchesPattern re schema document path t) = Returned False
      \<and> length (u_errors (snd (u_matchesPattern re schema document path t))) = Suc (length (u_errors t)))
   \<or> (fst (u_matchesPattern re schema document path t) \<noteq> Returned False
      \<and> snd (u_matchesPattern re schema document path t) = t)"
  by (simp add: u_matchesPattern_def compareTypes_def Let_def u_logError_def
      split: option.splits bool.splits)

lemma check_then_one:
  assumes "(fst (m t) = Returned False \<and> length (u_errors (snd (m t))) = Suc (length (u_errors t)))
     \<or> (fst (m t) \<noteq> Returned False \<and> snd (m t) = t)"
    and "length (u_errors (snd (rest t))) \<le> Suc (length (u_errors t))"
  shows "length (u_errors (snd (check_then m rest t))) \<le> Suc (length (u_errors t))"
  using assms
  by (cases "m t") (auto simp: check_then_def split: outcome.splits bool.splits)

lemma one_record_without_rescue:
  assumes "getType schema = T_object"
    and "\<not> (truthy (get schema ''optional'') \<and> document = JUndefined)"
    and "get schema ''items'' = JUndefined" and "get schema ''properties'' = JUndefined"
  shows "length (u_errors (snd (u_isValid re schema document path this)))
      \<le> Suc (length (u_errors this))"
proof -
  let ?rest = "check_then (u_matchesEnum (get schema ''enum'') document path)
              (check_then (u_matchesPattern re (get schema ''matches'') document path)
              (check_then (\<lambda>t. u_matchesItems re (get schema ''items'') document path t)
              (check_then (\<lambda>t. u_matchesProperties re (get schema ''properties'') document path t)
                 (\<lambda>t. (Returned True, t)))))"
  have tail: "check_then (\<lambda>t. u_matchesItems re (get schema ''items'') document path t)
              (check_then (\<lambda>t. u_matchesProperties re (get schema ''properties'') document path t)
                 (\<lambda>t. (Returned True, t))) t = (Returned True, t)" for t
    using assms(3,4)
    by (simp add: u_matchesItems.simps u_matchesProperties.simps compareTypes_def check_then_def)
  have rest: "length (u_errors (snd (?rest t))) \<le> Suc (length (u_errors t))" for t
    by (rule check_then_one [OF matchesEnum_logs])
      (rule check_then_one [OF matchesPattern_logs], simp add: tail)
  obtain r1 t1 where ty: "u_matchesType (get schema ''type'') document path this = (r1, t1)"
    by (cases "u_matchesType (get schema ''type'') document path this")
  from matchesType_logs [of "get schema ''type''" document path this] ty
  consider "r1 = Returned False" "length (u_errors t1) = Suc (length (u_errors this))"
    | "r1 \<noteq> Returned False" "t1 = this" by auto
  then show ?thesis
  proof cases
    case 1
    then have "u_isValid re schema document path this = (Returned False, t1)"
      using assms(1,2) ty by (simp add: u_isValid.simps compareTypes_def)
    then show ?thesis using 1 by simp
  next
    case 2
    show ?thesis
    proof (cases r1)
      case Thrown
      then have "u_isValid re schema document path this = (Thrown, this)"
        using assms(1) ty 2 by (simp add: u_isValid.simps compareTypes_def)
      then show ?thesis by simp
    next
      case (Returned b)
      then have "u_isValid re schema document path this = ?rest this"
        using assms(1) ty 2 by (simp add: u_isValid.simps compareTypes_def)
      then show ?thesis using rest [of this] by simp
    qed
  qed
qed

text \<open>
  Claim C2, at a descriptor without \<^verbatim>\<open>items\<close> and \<^verbatim>\<open>properties\<close>, so that the
  engine does not call itself. For \<^verbatim>\<open>{type:"string", optional:true, enum:["a"]}\<close>
  and the document \<^verbatim>\<open>undefined\<close> one invocation pushes two records: that of the
  type check, which the optional flag lets pass, and that of the enum check.
\<close>

theorem two_records_of_one_invocation:
  "u_isValid re
      (JObj r [(''type'', JStr ''string''), (''optional'', JBool True),
               (''enum'', JArr r' [JStr ''a''])])
      JUndefined path this
   = (Returned False,
      this\<lparr>u_errors := u_errors this @
        [\<lparr>keyword = Some ''type'', instancePath = path,
           message = Some ''must be string, but it was undefined''\<rparr>,
         \<lparr>keyword = Some ''value'', instancePath = path,
           message = Some ''value must be in enum a, but it was undefined''\<rparr>]\<rparr>)"
  by (simp add: engine_simps)

subsection \<open>The message of the type check\<close>

text \<open>
  Claim C3, at the declaration \<^verbatim>\<open>"number"\<close> and the document \<^verbatim>\<open>"x"\<close>. The
  record has the keyword \<^verbatim>\<open>type\<close>; its message names the class of the schema
  value, which is \<^verbatim>\<open>string\<close> for every declaration of a single type, and not the
  declared type \<^verbatim>\<open>number\<close>. For a declaration that is a sequence the message names
  the members, joined.
\<close>

theorem type_message_names_class_of_schema:
  "u_matchesType (JStr ''number'') (JStr ''x'') path this
     = (Returned False,
        u_logError \<lparr>keyword = Some ''type'', instancePath = path,
          message = Some ''must be string, but it was string''\<rparr> this)
   \<and> u_matchesType (JArr r [JStr ''number'', JStr ''boolean'']) (JStr ''x'') path this
     = (Returned False,
        u_logError \<lparr>keyword = Some ''type'', instancePath = path,
          message = Some ''must be number | boolean, but it was string''\<rparr> this)"
  by (simp add: engine_simps)

subsection \<open>The properties check on a document that is no object\<close>

text \<open>
  Claim C5. When the field \<^verbatim>\<open>properties\<close> is defined and the document does not
  classify as object, the properties check returns false and pushes exactly one record:
  keyword \<^verbatim>\<open>schema\<close>, and as \<^verbatim>\<open>instancePath\<close> the four letters \<^verbatim>\<open>path\<close>,
  whatever the path of the call is.
\<close>

theorem properties_of_non_object:
  assumes "getType (get descriptor ''properties'') \<noteq> T_undefined"
    and "getType document \<noteq> T_object"
  shows "u_matchesProperties re (get descriptor ''properties'') document path this =
    (Returned False,
     this\<lparr>u_errors := u_errors this @
       [\<lparr>keyword = Some ''schema'', instancePath = ''path'',
          message = Some ''must be an object, but schema defines properties.''\<rparr>]\<rparr>)"
  using assms by (simp add: engine_simps)

theorem properties_of_non_object_witness:
  "getType (get (JObj 0 [(''properties'', JObj 1 [])]) ''properties'') \<noteq> T_undefined
   \<and> getType (JNum ''7'') \<noteq> T_object
   \<and> u_matchesProperties literal_regexp (get (JObj 0 [(''properties'', JObj 1 [])]) ''properties'')
        (JNum ''7'') ''$.a[0]'' \<lparr>u_schema = JObj 0 [(''properties'', JObj 1 [])], u_errors = []\<rparr>
     = (Returned False,
        \<lparr>u_schema = JObj 0 [(''properties'', JObj 1 [])],
         u_errors = [\<lparr>keyword = Some ''schema'', instancePath = ''path'',
           message = Some ''must be an object, but schema defines properties.''\<rparr>]\<rparr>)"
  using properties_of_non_object [of "JObj 0 [(''properties'', JObj 1 [])]" "JNum ''7''"
      literal_regexp "''$.a[0]''" "\<lparr>u_schema = JObj 0 [(''properties'', JObj 1 [])], u_errors = []\<rparr>"]
  by (simp add: read_simps)

subsection \<open>Validating twice\<close>

text \<open>
  Claim C8. A second call of \<^verbatim>\<open>validate\<close> on the same document, with the schema
  as it was, does what the first call did: it returns or throws as the first did and
  leaves the same instance, hence the same error collection.
\<close>

theorem validate_idempotent:
  "validate re document (snd (validate re document this)) = validate re document this
   \<and> errors (snd (validate re document (snd (validate re document this))))
       = errors (snd (validate re document this))"
proof -
  obtain es where es: "snd (u_isValid re (u_schema this) document ''$'' (this\<lparr>u_errors := []\<rparr>))
      = this\<lparr>u_errors := es\<rparr>"
    using appends_engine(1) [of re "u_schema this" document "''$''" "this\<lparr>u_errors := []\<rparr>"]
    by auto
  have "snd (validate re document this) = this\<lparr>u_errors := es\<rparr>"
    using es
    by (cases "u_isValid re (u_schema this) document ''$'' (this\<lparr>u_errors := []\<rparr>)")
      (auto simp: validate_def split: outcome.splits)
  then have "validate re document (snd (validate re document this)) = validate re document this"
    by (simp add: validate_def)
  then show ?thesis by simp
qed

subsection \<open>The type tag integer\<close>

lemma tag_text_integer: "tag_text (getType d) \<noteq> ''integer''"
  by (cases d) auto

text \<open>
  Claim C10. No value classifies as \<^verbatim>\<open>integer\<close>. So for every document, a number
  as well, the type check against the declaration \<^verbatim>\<open>"integer"\<close> returns false and
  pushes a record of keyword \<^verbatim>\<open>type\<close>, and \<^verbatim>\<open>validate\<close> with the schema
  \<^verbatim>\<open>"integer"\<close> or \<^verbatim>\<open>{type:"integer"}\<close> leaves exactly that record.
\<close>

theorem integer_unsatisfiable:
  "getType d \<noteq> T_integer
   \<and> u_matchesType (JStr ''integer'') d path this
     = (Returned False,
        u_logError \<lparr>keyword = Some ''type'', instancePath = path,
          message = Some (''must be string, but it was '' @ tag_text (getType d))\<rparr> this)
   \<and> validate re d \<lparr>u_schema = JStr ''integer'', u_errors = es\<rparr>
     = (True, \<lparr>u_schema = JStr ''integer'',
          u_errors = [\<lparr>keyword = Some ''type'', instancePath = ''$'',
            message = Some (''must be string, but it was '' @ tag_text (getType d))\<rparr>]\<rparr>)
   \<and> validate re d \<lparr>u_schema = JObj r [(''type'', JStr ''integer'')], u_errors = es\<rparr>
     = (True, \<lparr>u_schema = JObj r [(''type'', JStr ''integer'')],
          u_errors = [\<lparr>keyword = Some ''type'', instancePath = ''$'',
            message = Some (''must be string, but it was '' @ tag_text (getType d))\<rparr>]\<rparr>)"
proof (intro conjI)
  show "getType d \<noteq> T_integer"
    by (cases d) auto
  show "u_matchesType (JStr ''integer'') d path this
     = (Returned False,
        u_logError \<lparr>keyword = Some ''type'', instancePath = path,
          message = Some (''must be string, but it was '' @ tag_text (getType d))\<rparr> this)"
    using tag_text_integer [of d] by (simp add: engine_simps)
  show "validate re d \<lparr>u_schema = JStr ''integer'', u_errors = es\<rparr>
     = (True, \<lparr>u_schema = JStr ''integer'',
          u_errors = [\<lparr>keyword = Some ''type'', instancePath = ''$'',
            message = Some (''must be string, but it was '' @ tag_text (getType d))\<rparr>]\<rparr>)"
    using tag_text_integer [of d] by (simp add: validate_def engine_simps)
  show "validate re d \<lparr>u_schema = JObj r [(''type'', JStr ''integer'')], u_errors = es\<rparr>
     = (True, \<lparr>u_schema = JObj r [(''type'', JStr ''integer'')],
          u_errors = [\<lparr>keyword = Some ''type'', instancePath = ''$'',
            message = Some (''must be string, but it was '' @ tag_text (getType d))\<rparr>]\<rparr>)"
    using tag_text_integer [of d] by (simp add: validate_def engine_simps)
qed

subsection \<open>The items check\<close>

lemma u_matchesItems_array:
  assumes "getType schema \<noteq> T_undefined"
  shows "u_matchesItems re schema (JArr r xs) path t =
    every (\<lambda>(subItem, index) t.
             if getType schema = T_string \<or> getType schema = T_array then
               u_matchesType schema subItem (path @ ''['' @ decimal index @ '']'') t
             else if getType schema = T_object then
               u_isValid re schema subItem (path @ ''['' @ decimal index @ '']'') t
             else (Returned True, t))
      (indexed xs) t"
  using assms by (simp add: u_matchesItems.simps compareTypes_def Let_def)

lemma items_snoc:
  assumes "getType schema \<noteq> T_undefined"
  shows "u_matchesItems re schema (JArr r (xs @ [y])) path this =
     (case u_matchesItems re schema (JArr r' xs) path this of
        (Returned True, t) \<Rightarrow>
          (if getType schema = T_string \<or> getType schema = T_array then
             u_matchesType schema y (path @ ''['' @ decimal (length xs) @ '']'') t
           else if getType schema = T_object then
             u_isValid re schema y (path @ ''['' @ decimal (length xs) @ '']'') t
           else (Returned True, t))
      | other \<Rightarrow> other)"
  unfolding u_matchesItems_array [OF assms] indexed_snoc every_append check_then_case every_single
  by (simp split: prod.splits outcome.splits bool.splits)

lemma items_stop:
  assumes "fst (u_matchesItems re schema (JArr r xs) path this) \<noteq> Returned True"
  shows "u_matchesItems re schema (JArr r' (xs @ ys)) path this
    = u_matchesItems re schema (JArr r xs) path this"
proof (cases "getType schema = T_undefined")
  case True
  then show ?thesis using assms by (simp add: u_matchesItems.simps compareTypes_def)
next
  case False
  then show ?thesis using assms
    by (simp add: u_matchesItems_array indexed_append every_append check_then_not_true)
qed

lemma items_empty:
  "u_matchesItems re schema (JArr r []) path this = (Returned True, this)"
  by (simp add: u_matchesItems.simps compareTypes_def indexed_def Let_def)

lemma items_number_example:
  "u_matchesItems re (JObj r' [(''type'', JStr ''number'')]) (JArr a [JNum ''1'', JNum ''2'', JStr ''x''])
      ''$'' this
   = (Returned False,
      u_logError \<lparr>keyword = Some ''type'', instancePath = ''$[2]'',
        message = Some ''must be string, but it was string''\<rparr> this)"
  by (simp add: engine_simps indexed_def decimal_digit Let_def)

text \<open>
  Claim C4. When \<^verbatim>\<open>items\<close> is defined and the document is an array, the members
  are checked from index 0 upwards, the member at index \<open>i\<close> under the path with
  \<^verbatim>\<open>[i]\<close> appended: the check of an array with one more member is the check of the
  array without it, followed, if that returned true, by the check of the new member
  under its index. Once the check of a prefix has not returned true, the result and the
  error collection are those of the prefix, whatever members follow: they are not
  checked. In particular \<^verbatim>\<open>{type:"array", items:{type:"number"}}\<close> against
  \<^verbatim>\<open>[1,2,"x",...]\<close> leaves the one record of index 2.
\<close>

theorem items_in_order_until_first_failure:
  assumes "getType schema \<noteq> T_undefined"
  shows "u_matchesItems re schema (JArr r []) path this = (Returned True, this)
   \<and> u_matchesItems re schema (JArr r (xs @ [y])) path this =
       (case u_matchesItems re schema (JArr r' xs) path this of
          (Returned True, t) \<Rightarrow>
            (if getType schema = T_string \<or> getType schema = T_array then
               u_matchesType schema y (path @ ''['' @ decimal (length xs) @ '']'') t
             else if getType schema = T_object then
               u_isValid re schema y (path @ ''['' @ decimal (length xs) @ '']'') t
             else (Returned True, t))
        | other \<Rightarrow> other)
   \<and> (fst (u_matchesItems re schema (JArr r xs) path this) \<noteq> Returned True \<longrightarrow>
        u_matchesItems re schema (JArr r' (xs @ ys)) path this
          = u_matchesItems re schema (JArr r xs) path this)
   \<and> validate re (JArr a (JNum ''1'' # JNum ''2'' # JStr ''x'' # rest))
        \<lparr>u_schema = JObj b [(''type'', JStr ''array''), (''items'', JObj c [(''type'', JStr ''number'')])],
         u_errors = es\<rparr>
       = (True,
          \<lparr>u_schema = JObj b [(''type'', JStr ''array''), (''items'', JObj c [(''type'', JStr ''number'')])],
           u_errors = [\<lparr>keyword = Some ''type'', instancePath = ''$[2]'',
             message = Some ''must be string, but it was string''\<rparr>]\<rparr>)
   \<and> isValid (snd (validate re (JArr a (JNum ''1'' # JNum ''2'' # JStr ''x'' # rest))
        \<lparr>u_schema = JObj b [(''type'', JStr ''array''), (''items'', JObj c [(''type'', JStr ''number'')])],
         u_errors = es\<rparr>)) = False"
proof -
  let ?D = "JObj b [(''type'', JStr ''array''), (''items'', JObj c [(''type'', JStr ''number'')])]"
  let ?e = "\<lparr>keyword = Some ''type'', instancePath = ''$[2]'',
             message = Some ''must be string, but it was string''\<rparr>"
  have "u_matchesItems re (JObj c [(''type'', JStr ''number'')])
          (JArr a ([JNum ''1'', JNum ''2'', JStr ''x''] @ rest)) ''$'' t
        = (Returned False, u_logError ?e t)" for t
    using items_stop [of re "JObj c [(''type'', JStr ''number'')]" a "[JNum ''1'', JNum ''2'', JStr ''x'']" "''$''" t a rest]
    by (simp add: items_number_example)
  then have run: "validate re (JArr a (JNum ''1'' # JNum ''2'' # JStr ''x'' # rest))
        \<lparr>u_schema = ?D, u_errors = es\<rparr> = (True, \<lparr>u_schema = ?D, u_errors = [?e]\<rparr>)"
    by (simp add: validate_def u_isValid.simps u_matchesType_def u_matchesEnum_def
        u_matchesPattern_def compareTypes_def check_then_def u_logError_def read_simps)
  show ?thesis
  proof (intro conjI impI)
    show "u_matchesItems re schema (JArr r []) path this = (Returned True, this)"
      by (rule items_empty)
    show "u_matchesItems re schema (JArr r (xs @ [y])) path this =
         (case u_matchesItems re schema (JArr r' xs) path this of
            (Returned True, t) \<Rightarrow>
              (if getType schema = T_string \<or> getType schema = T_array then
                 u_matchesType schema y (path @ ''['' @ decimal (length xs) @ '']'') t
               else if getType schema = T_object then
                 u_isValid re schema y (path @ ''['' @ decimal (length xs) @ '']'') t
               else (Returned True, t))
          | other \<Rightarrow> other)"
      by (rule items_snoc [OF assms])
    show "u_matchesItems re schema (JArr r' (xs @ ys)) path this
            = u_matchesItems re schema (JArr r xs) path this"
      if "fst (u_matchesItems re schema (JArr r xs) path this) \<noteq> Returned True"
      using that by (rule items_stop)
    show "validate re (JArr a (JNum ''1'' # JNum ''2'' # JStr ''x'' # rest))
          \<lparr>u_schema = ?D, u_errors = es\<rparr> = (True, \<lparr>u_schema = ?D, u_errors = [?e]\<rparr>)"
      by (rule run)
    show "isValid (snd (validate re (JArr a (JNum ''1'' # JNum ''2'' # JStr ''x'' # rest))
          \<lparr>u_schema = ?D, u_errors = es\<rparr>)) = False"
      by (simp add: run isValid_def)
  qed
qed

theorem items_in_order_until_first_failure_witness:
  "getType (JObj 1 [(''type'', JStr ''number'')]) \<noteq> T_undefined
   \<and> fst (u_matchesItems literal_regexp (JObj 1 [(''type'', JStr ''number'')])
        (JArr 2 [JNum ''1'', JNum ''2'']) ''$'' \<lparr>u_schema = JNull, u_errors = []\<rparr>) = Returned True
   \<and> u_matchesItems literal_regexp (JObj 1 [(''type'', JStr ''number'')])
        (JArr 2 ([JNum ''1'', JNum ''2''] @ [JStr ''x''])) ''$'' \<lparr>u_schema = JNull, u_errors = []\<rparr>
       = (Returned False, \<lparr>u_schema = JNull,
            u_errors = [\<lparr>keyword = Some ''type'', instancePath = ''$[2]'',
              message = Some ''must be string, but it was string''\<rparr>]\<rparr>)
   \<and> fst (u_matchesItems literal_regexp (JObj 1 [(''type'', JStr ''number'')])
        (JArr 2 [JNum ''1'', JNum ''2'', JStr ''x'']) ''$'' \<lparr>u_schema = JNull, u_errors = []\<rparr>)
       \<noteq> Returned True
   \<and> u_matchesItems literal_regexp (JObj 1 [(''type'', JStr ''number'')])
        (JArr 3 ([JNum ''1'', JNum ''2'', JStr ''x''] @ [JNum ''4''])) ''$'' \<lparr>u_schema = JNull, u_errors = []\<rparr>
       = (Returned False, \<lparr>u_schema = JNull,
            u_errors = [\<lparr>keyword = Some ''type'', instancePath = ''$[2]'',
              message = Some ''must be string, but it was string''\<rparr>]\<rparr>)"
  using items_in_order_until_first_failure [of "JObj 1 [(''type'', JStr ''number'')]"
      literal_regexp 2 "''$''" "\<lparr>u_schema = JNull, u_errors = []\<rparr>" "[JNum ''1'', JNum ''2'']"
      "JStr ''x''" 2]
    items_in_order_until_first_failure [of "JObj 1 [(''type'', JStr ''number'')]"
      literal_regexp 2 "''$''" "\<lparr>u_schema = JNull, u_errors = []\<rparr>"
      "[JNum ''1'', JNum ''2'', JStr ''x'']" "JNum ''4''" 3 "[JNum ''4'']"]
  by (simp add: engine_simps indexed_def decimal_digit Let_def)

subsection \<open>The pattern check\<close>







subsection \<open>The properties check on an object\<close>

lemma u_matchesProperties_object:
  assumes "getType schema = T_object" and "getType document = T_object"
  shows "u_matchesProperties re schema document path t =
    every (\<lambda>key t. u_isValid re (get schema key) (get document key) (path @ ''.'' @ key) t)
      (keys schema) t"
  using assms by (simp add: u_matchesProperties.simps compareTypes_def Let_def)

lemma get_append_left:
  assumes "key \<in> set (map fst kvs)"
  shows "get (JObj r (kvs @ kvs')) key = get (JObj r' kvs) key"
proof -
  have "map_of kvs key \<noteq> None"
    using assms by (simp add: map_of_eq_None_iff)
  then show ?thesis
    by (auto simp: member_def map_add_def split: option.splits)
qed

lemma get_append_right:
  assumes "key \<notin> set (map fst kvs)"
  shows "get (JObj r (kvs @ kvs')) key = get (JObj r' kvs') key"
proof -
  have "map_of kvs key = None"
    using assms by (simp add: map_of_eq_None_iff)
  then show ?thesis
    by (auto simp: member_def map_add_def split: option.splits)
qed

lemma get_missing:
  assumes "getType document = T_object" and "key \<notin> set (keys document)"
  shows "get document key =
     (if key \<in> set natives then JNative key
      else if key = ''__proto__'' then
        (if document = JObjectPrototype then JNull else JObjectPrototype)
      else JUndefined)"
proof (cases document)
  case (JObj r kvs)
  then have "map_of kvs key = None"
    using assms by (simp add: map_of_eq_None_iff)
  then show ?thesis
    using JObj by (simp add: member_def inherited_def natives_def)
next
  case JObjectPrototype
  then show ?thesis
    by (simp add: inherited_def)
qed (use assms in simp_all)

lemma every_keys_prefix:
  "every (\<lambda>key. u_isValid re (get (JObj r (kvs @ kvs')) key) (dd key) (pp key)) (map fst kvs)
   = every (\<lambda>key. u_isValid re (get (JObj r' kvs) key) (dd key) (pp key)) (map fst kvs)"
  by (rule ext, rule every_cong)
    (simp_all del: get.simps add: get_append_left [of _ kvs r kvs' r'])

lemma props_append:
  assumes "getType document = T_object"
  shows "u_matchesProperties re (JObj r (kvs @ kvs')) document path this =
     check_then (u_matchesProperties re (JObj r' kvs) document path)
       (every (\<lambda>key. u_isValid re (get (JObj r (kvs @ kvs')) key) (get document key)
           (path @ ''.'' @ key)) (map fst kvs')) this"
proof -
  have "u_matchesProperties re (JObj r' kvs) document path
      = every (\<lambda>key. u_isValid re (get (JObj r' kvs) key) (get document key)
           (path @ ''.'' @ key)) (map fst kvs)"
    using assms by (intro ext) (simp del: get.simps add: u_matchesProperties_object)
  then show ?thesis
    using assms
    by (simp del: get.simps add: u_matchesProperties_object every_append
        every_keys_prefix [of re r kvs kvs' _ _ r'])
qed

lemma props_snoc:
  assumes "getType document = T_object" and "key \<notin> set (map fst kvs)"
  shows "u_matchesProperties re (JObj r (kvs @ [(key, sub)])) document path this =
     (case u_matchesProperties re (JObj r' kvs) document path this of
        (Returned True, t) \<Rightarrow> u_isValid re sub (get document key) (path @ ''.'' @ key) t
      | other \<Rightarrow> other)"
proof -
  have "get (JObj r (kvs @ [(key, sub)])) key = sub"
    using get_append_right [OF assms(2), of r "[(key, sub)]" r] by (simp add: member_def)
  then have "every (\<lambda>k. u_isValid re (get (JObj r (kvs @ [(key, sub)])) k) (get document k)
           (path @ ''.'' @ k)) (map fst [(key, sub)])
      = u_isValid re sub (get document key) (path @ ''.'' @ key)"
    by (intro ext) (simp del: get.simps split: prod.splits outcome.splits bool.splits)
  then show ?thesis
    unfolding props_append [OF assms(1), of re r kvs "[(key, sub)]" path this r']
    by (simp add: check_then_def split: prod.splits outcome.splits bool.splits)
qed

lemma props_stop:
  assumes "getType document = T_object"
    and "fst (u_matchesProperties re (JObj r kvs) document path this) \<noteq> Returned True"
  shows "u_matchesProperties re (JObj r' (kvs @ kvs')) document path this
    = u_matchesProperties re (JObj r kvs) document path this"
  unfolding props_append [OF assms(1), of re r' kvs kvs' path this r]
  using assms(2) by (rule check_then_not_true)

lemma props_empty:
  "u_matchesProperties re (JObj r []) document path this
    = (if getType document = T_object then (Returned True, this)
       else (Returned False,
         u_logError \<lparr>keyword = Some ''schema'', instancePath = ''path'',
           message = Some ''must be an object, but schema defines properties.''\<rparr> this))"
  by (simp add: u_matchesProperties.simps compareTypes_def Let_def)

text \<open>
  Claim C7, amended. When \<^verbatim>\<open>properties\<close> is an object and the document is an
  object, the keys of the properties map are visited in their order, and each visited
  key is validated by the engine against \<^verbatim>\<open>document[key]\<close>. For a key that the
  document lacks this is undefined, unless the key names a member that the document
  inherits from \<^verbatim>\<open>Object.prototype\<close>: then it is that member, a function (which
  classifies as \<^verbatim>\<open>string\<close>) or, for \<^verbatim>\<open>__proto__\<close>, the prototype. The visit
  ends at the first key whose validation does not return true: the keys after it are
  not validated. In particular \<^verbatim>\<open>{type:"object", properties:{a:{type:"number"}}}\<close>
  against \<^verbatim>\<open>{}\<close> leaves one record of keyword \<^verbatim>\<open>type\<close> at the path
  \<^verbatim>\<open>$.a\<close>, and \<^verbatim>\<open>{type:"object", properties:{toString:{type:"string"}}}\<close>
  against \<^verbatim>\<open>{}\<close> leaves none.
\<close>

theorem properties_keys_until_first_failure:
  assumes "getType document = T_object"
  shows "(key \<notin> set (keys document) \<longrightarrow>
            get document key =
              (if key \<in> set natives then JNative key
               else if key = ''__proto__'' then
                 (if document = JObjectPrototype then JNull else JObjectPrototype)
               else JUndefined))
   \<and> u_matchesProperties re (JObj r []) document path this = (Returned True, this)
   \<and> (key \<notin> set (map fst kvs) \<longrightarrow>
        u_matchesProperties re (JObj r (kvs @ [(key, sub)])) document path this =
          (case u_matchesProperties re (JObj r' kvs) document path this of
             (Returned True, t) \<Rightarrow> u_isValid re sub (get document key) (path @ ''.'' @ key) t
           | other \<Rightarrow> other))
   \<and> (fst (u_matchesProperties re (JObj r kvs) document path this) \<noteq> Returned True \<longrightarrow>
        u_matchesProperties re (JObj r' (kvs @ kvs')) document path this
          = u_matchesProperties re (JObj r kvs) document path this)
   \<and> validate re (JObj a [])
        \<lparr>u_schema = JObj b [(''type'', JStr ''object''),
           (''properties'', JObj c [(''a'', JObj d [(''type'', JStr ''number'')])])],
         u_errors = es\<rparr>
       = (True,
          \<lparr>u_schema = JObj b [(''type'', JStr ''object''),
             (''properties'', JObj c [(''a'', JObj d [(''type'', JStr ''number'')])])],
           u_errors = [\<lparr>keyword = Some ''type'', instancePath = ''$.a'',
             message = Some ''must be string, but it was undefined''\<rparr>]\<rparr>)
   \<and> validate re (JObj a [])
        \<lparr>u_schema = JObj b [(''type'', JStr ''object''),
           (''properties'', JObj c [(''toString'', JObj d [(''type'', JStr ''string'')])])],
         u_errors = es\<rparr>
       = (True,
          \<lparr>u_schema = JObj b [(''type'', JStr ''object''),
             (''properties'', JObj c [(''toString'', JObj d [(''type'', JStr ''string'')])])],
           u_errors = []\<rparr>)"
proof (intro conjI impI)
  show "get document key =
              (if key \<in> set natives then JNative key
               else if key = ''__proto__'' then
                 (if document = JObjectPrototype then JNull else JObjectPrototype)
               else JUndefined)" if "key \<notin> set (keys document)"
    using assms that by (rule get_missing)
  show "u_matchesProperties re (JObj r []) document path this = (Returned True, this)"
    using assms by (simp add: props_empty)
  show "u_matchesProperties re (JObj r (kvs @ [(key, sub)])) document path this =
          (case u_matchesProperties re (JObj r' kvs) document path this of
             (Returned True, t) \<Rightarrow> u_isValid re sub (get document key) (path @ ''.'' @ key) t
           | other \<Rightarrow> other)"
    if "key \<notin> set (map fst kvs)"
    using assms that by (rule props_snoc)
  show "u_matchesProperties re (JObj r' (kvs @ kvs')) document path this
          = u_matchesProperties re (JObj r kvs) document path this"
    if "fst (u_matchesProperties re (JObj r kvs) document path this) \<noteq> Returned True"
    using assms that by (rule props_stop)
  show "validate re (JObj a [])
        \<lparr>u_schema = JObj b [(''type'', JStr ''object''),
           (''properties'', JObj c [(''a'', JObj d [(''type'', JStr ''number'')])])],
         u_errors = es\<rparr>
       = (True,
          \<lparr>u_schema = JObj b [(''type'', JStr ''object''),
             (''properties'', JObj c [(''a'', JObj d [(''type'', JStr ''number'')])])],
           u_errors = [\<lparr>keyword = Some ''type'', instancePath = ''$.a'',
             message = Some ''must be string, but it was undefined''\<rparr>]\<rparr>)"
    by (simp add: validate_def engine_simps Let_def)
  show "validate re (JObj a [])
        \<lparr>u_schema = JObj b [(''type'', JStr ''object''),
           (''properties'', JObj c [(''toString'', JObj d [(''type'', JStr ''string'')])])],
         u_errors = es\<rparr>
       = (True,
          \<lparr>u_schema = JObj b [(''type'', JStr ''object''),
             (''properties'', JObj c [(''toString'', JObj d [(''type'', JStr ''string'')])])],
           u_errors = []\<rparr>)"
    by (simp add: validate_def engine_simps Let_def inherited_def natives_def)
qed

theorem properties_keys_until_first_failure_witness:
  "getType (JObj 5 []) = T_object
   \<and> ''a'' \<notin> set (keys (JObj 5 []))
   \<and> get (JObj 5 []) ''a'' = JUndefined
   \<and> ''toString'' \<notin> set (keys (JObj 5 []))
   \<and> get (JObj 5 []) ''toString'' = JNative ''toString''
   \<and> ''a'' \<notin> set (map fst ([] :: (string \<times> jsval) list))
   \<and> u_matchesProperties literal_regexp
        (JObj 1 ([] @ [(''a'', JObj 2 [(''type'', JStr ''number'')])])) (JObj 5 []) ''$''
        \<lparr>u_schema = JNull, u_errors = []\<rparr>
       = (Returned False, \<lparr>u_schema = JNull,
            u_errors = [\<lparr>keyword = Some ''type'', instancePath = ''$.a'',
              message = Some ''must be string, but it was undefined''\<rparr>]\<rparr>)
   \<and> fst (u_matchesProperties literal_regexp
        (JObj 1 [(''a'', JObj 2 [(''type'', JStr ''number'')])]) (JObj 5 []) ''$''
        \<lparr>u_schema = JNull, u_errors = []\<rparr>) \<noteq> Returned True
   \<and> u_matchesProperties literal_regexp
        (JObj 1 ([(''a'', JObj 2 [(''type'', JStr ''number'')])]
                 @ [(''b'', JObj 3 [(''type'', JStr ''number'')])])) (JObj 5 []) ''$''
        \<lparr>u_schema = JNull, u_errors = []\<rparr>
       = (Returned False, \<lparr>u_schema = JNull,
            u_errors = [\<lparr>keyword = Some ''type'', instancePath = ''$.a'',
              message = Some ''must be string, but it was undefined''\<rparr>]\<rparr>)"
  using properties_keys_until_first_failure [of "JObj 5 []" "''a''" literal_regexp 1 "''$''"
      "\<lparr>u_schema = JNull, u_errors = []\<rparr>" "[]" "JObj 2 [(''type'', JStr ''number'')]" 1]
    properties_keys_until_first_failure [of "JObj 5 []" "''toString''" literal_regexp 1 "''$''"
      "\<lparr>u_schema = JNull, u_errors = []\<rparr>" "[(''a'', JObj 2 [(''type'', JStr ''number'')])]"
      "JObj 2 [(''type'', JStr ''number'')]" 1 "[(''b'', JObj 3 [(''type'', JStr ''number'')])]"]
  by (simp add: engine_simps Let_def natives_def)

text \<open>
  Claim C7 as it is stated fails twice. Not every key of the properties map is
  validated: for the properties \<^verbatim>\<open>{a:{type:"number"}, b:{type:"number"}}\<close> against
  \<^verbatim>\<open>{}\<close>, validating the key \<^verbatim>\<open>b\<close> would push a record at \<^verbatim>\<open>$.b\<close>, and
  the properties check pushes the record at \<^verbatim>\<open>$.a\<close> only. And not every key
  that the document lacks is validated as undefined: for the properties
  \<^verbatim>\<open>{toString:{type:"string"}}\<close> against \<^verbatim>\<open>{}\<close>, validating undefined would push
  a record at \<^verbatim>\<open>$.toString\<close>, and the properties check, which reads the inherited
  function, pushes none.
\<close>

theorem later_key_not_validated:
  "''b'' \<in> set (keys (JObj 1 [(''a'', JObj 2 [(''type'', JStr ''number'')]),
                              (''b'', JObj 3 [(''type'', JStr ''number'')])]))
   \<and> u_isValid literal_regexp
        (get (JObj 1 [(''a'', JObj 2 [(''type'', JStr ''number'')]),
                      (''b'', JObj 3 [(''type'', JStr ''number'')])]) ''b'')
        (get (JObj 5 []) ''b'') ''$.b'' \<lparr>u_schema = JNull, u_errors = []\<rparr>
       = (Returned False, \<lparr>u_schema = JNull,
            u_errors = [\<lparr>keyword = Some ''type'', instancePath = ''$.b'',
              message = Some ''must be string, but it was undefined''\<rparr>]\<rparr>)
   \<and> u_matchesProperties literal_regexp
        (JObj 1 [(''a'', JObj 2 [(''type'', JStr ''number'')]),
                 (''b'', JObj 3 [(''type'', JStr ''number'')])]) (JObj 5 []) ''$''
        \<lparr>u_schema = JNull, u_errors = []\<rparr>
       = (Returned False, \<lparr>u_schema = JNull,
            u_errors = [\<lparr>keyword = Some ''type'', instancePath = ''$.a'',
              message = Some ''must be string, but it was undefined''\<rparr>]\<rparr>)
   \<and> \<not> set (u_errors (snd (u_isValid literal_regexp
        (get (JObj 1 [(''a'', JObj 2 [(''type'', JStr ''number'')]),
                      (''b'', JObj 3 [(''type'', JStr ''number'')])]) ''b'')
        (get (JObj 5 []) ''b'') ''$.b'' \<lparr>u_schema = JNull, u_errors = []\<rparr>)))
      \<subseteq> set (u_errors (snd (u_matchesProperties literal_regexp
        (JObj 1 [(''a'', JObj 2 [(''type'', JStr ''number'')]),
                 (''b'', JObj 3 [(''type'', JStr ''number'')])]) (JObj 5 []) ''$''
        \<lparr>u_schema = JNull, u_errors = []\<rparr>)))
   \<and> ''toString'' \<notin> set (keys (JObj 5 []))
   \<and> get (JObj 5 []) ''toString'' = JNative ''toString''
   \<and> u_isValid literal_regexp (JObj 4 [(''type'', JStr ''string'')]) JUndefined ''$.toString''
        \<lparr>u_schema = JNull, u_errors = []\<rparr>
       = (Returned False, \<lparr>u_schema = JNull,
            u_errors = [\<lparr>keyword = Some ''type'', instancePath = ''$.toString'',
              message = Some ''must be string, but it was undefined''\<rparr>]\<rparr>)
   \<and> u_matchesProperties literal_regexp
        (JObj 1 [(''toString'', JObj 4 [(''type'', JStr ''string'')])]) (JObj 5 []) ''$''
        \<lparr>u_schema = JNull, u_errors = []\<rparr>
       = (Returned True, \<lparr>u_schema = JNull, u_errors = []\<rparr>)"
  by (simp add: engine_simps Let_def inherited_def natives_def)

end
